theory Spec2Isabelle
  imports Main
begin

section \<open>Data model of middleware.js\<close>

type_synonym path = string

text \<open>Errors of \<^verbatim>\<open>fs\<close> and \<^verbatim>\<open>mkdirp\<close>: the code reads \<^verbatim>\<open>err.code\<close> only.\<close>

record fs_error =
  code :: string

text \<open>
  The error of \<^verbatim>\<open>style.render\<close>. The code reads \<^verbatim>\<open>err.message\<close>, \<^verbatim>\<open>err.line\<close> and
  \<^verbatim>\<open>err.column\<close> and only appends them to strings (lines 109-110), so each field is
  the string that \<^verbatim>\<open>+\<close> turns the property into, whatever its type and size.
\<close>

record sass_error =
  message :: string
  line :: string
  column :: string

text \<open>The result of \<^verbatim>\<open>style.render\<close>: \<^verbatim>\<open>result.css\<close> and \<^verbatim>\<open>result.stats.includedFiles\<close>.\<close>

record render_result =
  css :: string
  includedFiles :: "path list"

text \<open>
  \<^verbatim>\<open>options.importer\<close> is a function the middleware never calls: it is handed to the
  compiler as it is, so a handle stands for it.
\<close>

datatype importer_fn = Importer nat

text \<open>The object handed to \<^verbatim>\<open>style.render\<close> (lines 146-152).\<close>

record render_args =
  data :: string
  importer :: "importer_fn option"
  includePaths :: "path list"
  imagePath :: "string option"
  outputStyle :: "string option"

text \<open>
  The \<^verbatim>\<open>options\<close> object. A field that is \<^verbatim>\<open>undefined\<close> is \<open>None\<close>; the flags are
  read for their truthiness only. \<open>force_opt\<close>, \<open>dest_opt\<close>, \<open>root_opt\<close> and \<open>error_opt\<close>
  are \<^verbatim>\<open>options.force\<close>, \<^verbatim>\<open>options.dest\<close>, \<^verbatim>\<open>options.root\<close> and (the presence of)
  \<^verbatim>\<open>options.error\<close>; the closure's variables of the same names are defined below.
\<close>

record options =
  force_opt :: bool
  response :: bool
  debug :: bool
  src :: string
  dest_opt :: "string option"
  root_opt :: "string option"
  prefix :: "string option"
  error_opt :: bool
  importer_opt :: "importer_fn option"
  include_paths :: "path list option"
  includePaths_opt :: "path list option"
  image_path :: "string option"
  imagePath_opt :: "string option"
  output_style :: "string option"
  outputStyle_opt :: "string option"

text \<open>
  The process-wide \<^verbatim>\<open>var imports = {}\<close> (line 8) is a plain object, so a read
  \<^verbatim>\<open>imports[p]\<close> that finds no own property goes on along the prototype chain, and the
  key \<^verbatim>\<open>__proto__\<close> is the accessor of \<^verbatim>\<open>Object.prototype\<close>: reading it gives the
  prototype, assigning an array to it makes the array the prototype, and no own property
  of that name is ever made. The table is therefore the own properties, each the
  \<^verbatim>\<open>includedFiles\<close> array of a render, and the array installed as prototype, if any.
\<close>

record import_table =
  own :: "path \<rightharpoonup> path list"
  proto :: "path list option"

text \<open>
  What a read finds beyond the recorded arrays, as far as the code can tell the values
  apart: \<open>Missing\<close> is \<^verbatim>\<open>undefined\<close> or another falsy value; \<open>Plain\<close> is truthy with a
  falsy \<^verbatim>\<open>length\<close> (an object, a function of no parameters, a number); \<open>Sized\<close> is truthy
  with a truthy \<^verbatim>\<open>length\<close> and no \<^verbatim>\<open>forEach\<close> (a function with parameters, such as
  \<^verbatim>\<open>Object\<close> under the key \<^verbatim>\<open>constructor\<close>, or a string).
\<close>

datatype inherited = Missing | Plain | Sized

datatype js_value = Entry "path list" | Inherited inherited

text \<open>
  The collaborators the middleware calls, as functions giving the answer each call gets
  while one request is handled: \<^verbatim>\<open>fs.stat\<close> (the error, or \<^verbatim>\<open>stat.mtime\<close> as the
  number the comparison \<^verbatim>\<open>>\<close> converts the Date to), \<^verbatim>\<open>fs.readFile\<close>, \<^verbatim>\<open>fs.writeFile\<close>,
  \<^verbatim>\<open>mkdirp\<close>, the \<^verbatim>\<open>render\<close> of the object \<^verbatim>\<open>options.compile()\<close> returns,
  \<^verbatim>\<open>path.join\<close>, \<^verbatim>\<open>path.dirname\<close>, and \<open>chain\<close>: what the prototype chain of
  \<^verbatim>\<open>imports\<close> holds under a key that is no own property, given the array installed as
  prototype (\<open>None\<close> for \<^verbatim>\<open>Object.prototype\<close> itself). Every property found there other
  than \<^verbatim>\<open>__proto__\<close> is taken to be an ordinary writable one, as the standard ones are,
  so that assigning to its key makes an own property.
\<close>

record world =
  fs_stat :: "path \<Rightarrow> fs_error + int"
  fs_readFile :: "path \<Rightarrow> fs_error + string"
  fs_writeFile :: "path \<Rightarrow> string \<Rightarrow> fs_error option"
  mkdirp :: "path \<Rightarrow> fs_error option"
  render :: "render_args \<Rightarrow> sass_error + render_result"
  join :: "path list \<Rightarrow> path"
  dirname :: "path \<Rightarrow> path"
  chain :: "path list option \<Rightarrow> path \<Rightarrow> inherited"

text \<open>
  \<^verbatim>\<open>req.method\<close> and \<^verbatim>\<open>url.parse(req.url).pathname\<close>, a string for the request target
  of every HTTP request line.
\<close>

record request =
  req_method :: string
  pathname :: string

text \<open>
  What the middleware does, in the order it happens: the calls on its collaborators,
  the changes of \<^verbatim>\<open>imports\<close>, the lines logged, and what is sent or handed on.
  \<open>Stat\<close>, \<open>ReadFile\<close> and \<open>WriteFile\<close> stand where the callback of the call runs and
  carry the answer it gets. \<open>Render\<close> and \<open>Mkdirp\<close> stand where the call is made;
  \<open>Done\<close> is the compiler calling \<^verbatim>\<open>done(err, result)\<close>. \<open>Render\<close> and \<open>Done\<close> carry
  the source path of the closure they belong to. \<open>Next None\<close> is \<^verbatim>\<open>next()\<close> and
  \<^verbatim>\<open>next(null)\<close>, \<open>Next (Some err)\<close> is \<^verbatim>\<open>next(err)\<close>. \<open>Throw\<close> is an exception that
  leaves a callback uncaught.
\<close>

datatype action =
    Log string string
  | ErrorCallback sass_error
  | Stat path "fs_error + int"
  | ReadFile path "fs_error + string"
  | LedgerDelete path
  | Render path render_args
  | Done path "sass_error + render_result"
  | LedgerSet path "path list"
  | Mkdirp path nat
  | WriteFile path string "fs_error option"
  | WriteHead nat "(string \<times> string) list"
  | End string
  | Next "fs_error option"
  | Throw string

section \<open>Strings\<close>

text \<open>\<^verbatim>\<open>String.prototype.replace\<close> with a string pattern: the first occurrence only.\<close>

fun replace :: "string \<Rightarrow> string \<Rightarrow> string \<Rightarrow> string" where
  "replace pat rep [] = (if pat = [] then rep else [])"
| "replace pat rep (c # cs) =
     (if take (length pat) (c # cs) = pat then rep @ drop (length pat) (c # cs)
      else c # replace pat rep cs)"

text \<open>\<^verbatim>\<open>message.replace(/\n/g, "\\A ")\<close>: every newline becomes backslash, A, space.\<close>

fun replace_newlines :: "string \<Rightarrow> string" where
  "replace_newlines [] = []"
| "replace_newlines (c # cs) =
     (if c = CHR 0x0A then [CHR 0x5C, CHR ''A'', CHR '' ''] @ replace_newlines cs
      else c # replace_newlines cs)"

text \<open>\<^verbatim>\<open>/\.css$/.test(path)\<close>.\<close>

definition css_test :: "string \<Rightarrow> bool" where
  "css_test p = (4 \<le> length p \<and> drop (length p - 4) p = ''.css'')"

text \<open>\<^verbatim>\<open>0 === path.indexOf(p)\<close>.\<close>

definition starts_with :: "string \<Rightarrow> string \<Rightarrow> bool" where
  "starts_with p s = (take (length p) s = p)"

text \<open>\<^verbatim>\<open>a || b\<close> on strings that may be undefined: the empty string is falsy.\<close>

definition or_else :: "string option \<Rightarrow> string option \<Rightarrow> string option" where
  "or_else a b = (case a of None \<Rightarrow> b | Some s \<Rightarrow> if s = [] then b else a)"

section \<open>The middleware\<close>

text \<open>Line 53: \<^verbatim>\<open>var force = options.force || options.response\<close>.\<close>

definition force :: "options \<Rightarrow> bool" where
  "force opts = (force_opt opts \<or> response opts)"

text \<open>Line 63: \<^verbatim>\<open>var dest = options.dest || src\<close>.\<close>

definition dest :: "options \<Rightarrow> string" where
  "dest opts = (case dest_opt opts of None \<Rightarrow> src opts | Some d \<Rightarrow> if d = [] then src opts else d)"

text \<open>Line 65: \<^verbatim>\<open>var root = options.root || null\<close>.\<close>

definition root :: "options \<Rightarrow> string option" where
  "root opts = (case root_opt opts of None \<Rightarrow> None | Some r \<Rightarrow> if r = [] then None else Some r)"

text \<open>The array the table holds under a key: an own property, or the installed prototype.\<close>

definition entry :: "import_table \<Rightarrow> path \<Rightarrow> path list option" where
  "entry im p =
     (case own im p of
        Some nodes \<Rightarrow> Some nodes
      | None \<Rightarrow> if p = ''__proto__'' then proto im else None)"

text \<open>The read \<^verbatim>\<open>imports[p]\<close> (lines 161 and 210).\<close>

definition lookup :: "world \<Rightarrow> import_table \<Rightarrow> path \<Rightarrow> js_value" where
  "lookup w im p =
     (case entry im p of
        Some nodes \<Rightarrow> Entry nodes
      | None \<Rightarrow> Inherited (chain w (proto im) p))"

text \<open>\<^verbatim>\<open>delete imports[p]\<close> (line 145) removes an own property and nothing else.\<close>

definition table_delete :: "import_table \<Rightarrow> path \<Rightarrow> import_table" where
  "table_delete im p = im\<lparr> own := (own im)(p := None) \<rparr>"

text \<open>\<^verbatim>\<open>imports[p] = files\<close> (line 119).\<close>

definition table_set :: "import_table \<Rightarrow> path \<Rightarrow> path list \<Rightarrow> import_table" where
  "table_set im p files =
     (if p = ''__proto__'' then im\<lparr> proto := Some files \<rparr>
      else im\<lparr> own := (own im)(p \<mapsto> files) \<rparr>)"

text \<open>\<^verbatim>\<open>var imports = {}\<close>.\<close>

definition empty_table :: import_table where
  "empty_table = \<lparr> own = Map.empty, proto = None \<rparr>"

text \<open>Lines 234-246.\<close>

definition log :: "string \<Rightarrow> string \<Rightarrow> action list" where
  "log key val = [Log key val]"

definition logError :: "string \<Rightarrow> action list" where
  "logError msg = log ''error'' ([CHR 0x07, CHR 0x1B] @ ''[31m'' @ msg @ [CHR 0x1B] @ ''[91m'')"

text \<open>Lines 98-102: ENOENT falls through as 404.\<close>

definition error :: "fs_error \<Rightarrow> action list" where
  "error err = [Next (if code err = ''ENOENT'' then None else Some err)]"

text \<open>Lines 109-111: the text sent when the compiler fails.\<close>

definition diagnostic :: "path \<Rightarrow> sass_error \<Rightarrow> string" where
  "diagnostic sassPath err =
     (let fileLineColumn = sassPath @ '':'' @ line err @ '':'' @ column err;
          msg = message err @ '' in '' @ fileLineColumn
      in ''/*'' @ [CHR 0x0A] @ msg @ [CHR 0x0A] @ ''*/'' @ [CHR 0x0A]
         @ ''body:before { white-space: pre; font-family: monospace; content: '' @ [CHR 0x22]
         @ replace_newlines msg @ [CHR 0x22])"

text \<open>Lines 132-136.\<close>

definition headers :: "(string \<times> string) list" where
  "headers = [(''Content-Type'', ''text/css''), (''Cache-Control'', ''max-age=0'')]"

definition respond :: "string \<Rightarrow> action list" where
  "respond d = [WriteHead 200 headers, End d]"

text \<open>
  Lines 123-128, the two callbacks: they run after \<^verbatim>\<open>done\<close> has returned, so after the
  response has been sent. \<^verbatim>\<open>0700\<close> is 448.
\<close>

definition persist :: "world \<Rightarrow> path \<Rightarrow> string \<Rightarrow> action list" where
  "persist w cssPath d =
     (case mkdirp w (dirname w cssPath) of
        Some err \<Rightarrow> error err
      | None \<Rightarrow>
          WriteFile cssPath d (fs_writeFile w cssPath d)
          # (case fs_writeFile w cssPath d of Some err \<Rightarrow> error err | None \<Rightarrow> []))"

text \<open>Lines 105-137: \<^verbatim>\<open>done(err, result)\<close>.\<close>

definition done_cb ::
  "options \<Rightarrow> world \<Rightarrow> path \<Rightarrow> path \<Rightarrow> sass_error + render_result \<Rightarrow> import_table
     \<Rightarrow> import_table \<times> action list" where
  "done_cb opts w sassPath cssPath res im =
     (case res of
        Inl err \<Rightarrow>
          (im,
           (if debug opts then logError (diagnostic sassPath err) else [])
           @ (if error_opt opts then [ErrorCallback err] else [])
           @ respond (diagnostic sassPath err))
      | Inr result \<Rightarrow>
          (table_set im sassPath (includedFiles result),
           (if debug opts
            then log ''render'' (if response opts then ''<response>'' else sassPath) else [])
           @ [LedgerSet sassPath (includedFiles result)]
           @ (if \<not> response opts
              then [Mkdirp (dirname w cssPath) 448] else [])
           @ respond (css result)
           @ (if \<not> response opts then persist w cssPath (css result) else [])))"

text \<open>Lines 146-152.\<close>

definition render_options :: "options \<Rightarrow> path \<Rightarrow> string \<Rightarrow> render_args" where
  "render_options opts sassDir str =
     \<lparr> data = str,
       importer = importer_opt opts,
       includePaths = [sassDir] @
         (case include_paths opts of Some l \<Rightarrow> l
          | None \<Rightarrow> (case includePaths_opt opts of Some l \<Rightarrow> l | None \<Rightarrow> [])),
       imagePath = or_else (image_path opts) (imagePath_opt opts),
       outputStyle = or_else (output_style opts) (outputStyle_opt opts) \<rparr>"

text \<open>Lines 140-154: \<^verbatim>\<open>compile()\<close>.\<close>

definition compile ::
  "options \<Rightarrow> world \<Rightarrow> path \<Rightarrow> path \<Rightarrow> path \<Rightarrow> import_table \<Rightarrow> import_table \<times> action list" where
  "compile opts w sassPath cssPath sassDir im =
     (let pre = (if debug opts then log ''read'' cssPath else [])
                @ [ReadFile sassPath (fs_readFile w sassPath)]
      in case fs_readFile w sassPath of
           Inl err \<Rightarrow> (im, pre @ error err)
         | Inr str \<Rightarrow>
             (let args = render_options opts sassDir str;
                  res = render w args;
                  (im', tr) = done_cb opts w sassPath cssPath res (table_delete im sassPath)
              in (im', pre @ [LedgerDelete sassPath, Render sassPath args, Done sassPath res]
                       @ tr)))"

text \<open>
  Lines 217-225, the \<^verbatim>\<open>forEach\<close>: one \<^verbatim>\<open>fs.stat\<close> per recorded path, and the paths whose
  stat fails or is newer than \<open>time\<close> pushed on \<open>changed\<close>. The callbacks are taken in
  the order of the calls; another order permutes \<open>changed\<close>, which is read for its
  length and for the debug lines only.
\<close>

fun stat_nodes :: "world \<Rightarrow> int \<Rightarrow> path list \<Rightarrow> path list \<Rightarrow> path list" where
  "stat_nodes w time [] changed = changed"
| "stat_nodes w time (imported # nodes) changed =
     stat_nodes w time nodes
       (case fs_stat w imported of
          Inl err \<Rightarrow> changed @ [imported]
        | Inr mtime \<Rightarrow> if mtime > time then changed @ [imported] else changed)"

text \<open>
  Lines 208-226: \<^verbatim>\<open>checkImports(path, time, fn)\<close>. The result is \<open>Called\<close> with the
  argument \<^verbatim>\<open>fn\<close> gets, \<open>None\<close> for \<^verbatim>\<open>fn()\<close>; or \<open>Thrown\<close>, when \<^verbatim>\<open>nodes\<close> is a value
  with a length and no \<^verbatim>\<open>forEach\<close> and line 217 raises a TypeError inside the callback
  of \<^verbatim>\<open>fs.stat\<close>.
\<close>

datatype checked = Thrown | Called "path list option"

definition checkImports ::
  "world \<Rightarrow> import_table \<Rightarrow> path \<Rightarrow> int \<Rightarrow> checked \<times> action list" where
  "checkImports w im p time =
     (case lookup w im p of
        Inherited Missing \<Rightarrow> (Called None, [])
      | Inherited Plain \<Rightarrow> (Called None, [])
      | Inherited Sized \<Rightarrow> (Thrown, [Throw ''TypeError''])
      | Entry nodes \<Rightarrow>
          if nodes = [] then (Called None, [])
          else (Called (Some (stat_nodes w time nodes [])),
                map (\<lambda>imported. Stat imported (fs_stat w imported)) nodes))"

text \<open>Lines 182-189: the callback given to \<^verbatim>\<open>checkImports\<close>.\<close>

definition imports_checked ::
  "options \<Rightarrow> world \<Rightarrow> path \<Rightarrow> path \<Rightarrow> path \<Rightarrow> path list option \<Rightarrow> import_table
     \<Rightarrow> import_table \<times> action list" where
  "imports_checked opts w sassPath cssPath sassDir changed im =
     (case changed of
        None \<Rightarrow> (im, [Next None])
      | Some ch \<Rightarrow>
          if ch = [] then (im, [Next None])
          else (let (im', tr) = compile opts w sassPath cssPath sassDir im
                in (im', (if debug opts
                          then concat (map (\<lambda>p. log ''modified import %s'' p) ch) else [])
                         @ tr)))"

text \<open>Lines 163-193: compare mtimes.\<close>

definition compare_mtimes ::
  "options \<Rightarrow> world \<Rightarrow> path \<Rightarrow> path \<Rightarrow> path \<Rightarrow> import_table \<Rightarrow> import_table \<times> action list" where
  "compare_mtimes opts w sassPath cssPath sassDir im =
     (case fs_stat w sassPath of
        Inl err \<Rightarrow> (im, Stat sassPath (Inl err) # error err)
      | Inr sassMtime \<Rightarrow>
          (let stats = [Stat sassPath (Inr sassMtime), Stat cssPath (fs_stat w cssPath)]
           in case fs_stat w cssPath of
                Inl err \<Rightarrow>
                  if code err = ''ENOENT''
                  then (let (im', tr) = compile opts w sassPath cssPath sassDir im
                        in (im', stats
                                 @ (if debug opts then log ''not found'' cssPath else []) @ tr))
                  else (im, stats @ [Next (Some err)])
              | Inr cssMtime \<Rightarrow>
                  if sassMtime > cssMtime
                  then (let (im', tr) = compile opts w sassPath cssPath sassDir im
                        in (im', stats
                                 @ (if debug opts then log ''modified'' cssPath else []) @ tr))
                  else (case checkImports w im sassPath cssMtime of
                          (Thrown, trc) \<Rightarrow> (im, stats @ trc)
                        | (Called changed, trc) \<Rightarrow>
                            (let (im', tr) =
                                   imports_checked opts w sassPath cssPath sassDir changed im
                             in (im', stats @ trc @ tr)))))"

text \<open>Lines 92-193: what the middleware does once the two paths are known.\<close>

definition resolve ::
  "options \<Rightarrow> world \<Rightarrow> path \<Rightarrow> path \<Rightarrow> path \<Rightarrow> import_table \<Rightarrow> import_table \<times> action list" where
  "resolve opts w sassPath cssPath sassDir im =
     (let (im', tr) =
            (if force opts then compile opts w sassPath cssPath sassDir im
             else if lookup w im sassPath = Inherited Missing
             then compile opts w sassPath cssPath sassDir im
             else compare_mtimes opts w sassPath cssPath sassDir im)
      in (im',
          (if debug opts
           then log ''source'' sassPath
                @ log ''dest'' (if response opts then ''<response>'' else cssPath)
           else [])
          @ tr))"

text \<open>Lines 73-197: \<^verbatim>\<open>function sass(req, res, next)\<close>.\<close>

definition sass :: "options \<Rightarrow> world \<Rightarrow> request \<Rightarrow> import_table \<Rightarrow> import_table \<times> action list" where
  "sass opts w req im =
     (if req_method req \<noteq> ''GET'' \<and> req_method req \<noteq> ''HEAD'' then (im, [Next None])
      else
        (let p = (case prefix opts of
                    None \<Rightarrow> pathname req
                  | Some pre \<Rightarrow>
                      if pre \<noteq> [] \<and> starts_with pre (pathname req)
                      then drop (length pre) (pathname req) else pathname req)
         in if css_test p
            then (case root opts of
                    None \<Rightarrow>
                      (let cssPath = join w [dest opts, p];
                           sassPath = join w [src opts, replace ''.css'' ''.scss'' p];
                           sassDir = dirname w sassPath
                       in resolve opts w sassPath cssPath sassDir im)
                  | Some r \<Rightarrow>
                      (let cssPath = join w [r, dest opts, replace (dest opts) [] p];
                           sassPath =
                             join w [r, src opts,
                                     replace ''.css'' ''.scss'' (replace (dest opts) [] p)];
                           sassDir = dirname w sassPath
                       in resolve opts w sassPath cssPath sassDir im))
            else (im, [Next None])))"

section \<open>Callbacks and concurrent requests\<close>

text \<open>
  \<^verbatim>\<open>fs.stat\<close>, \<^verbatim>\<open>fs.readFile\<close>, \<^verbatim>\<open>style.render\<close>, \<^verbatim>\<open>mkdirp\<close> and \<^verbatim>\<open>fs.writeFile\<close>
  return at once and run their callback later, so between two callbacks of one request
  the callbacks of other requests may run and change \<^verbatim>\<open>imports\<close>. The functions above
  follow one request through all its callbacks against one table; the functions below
  take the same code one callback at a time.
\<close>

text \<open>Lines 74-90: the two paths and the directory of the source, or none for \<^verbatim>\<open>next()\<close>.\<close>

definition locate :: "options \<Rightarrow> world \<Rightarrow> request \<Rightarrow> (path \<times> path \<times> path) option" where
  "locate opts w req =
     (if req_method req \<noteq> ''GET'' \<and> req_method req \<noteq> ''HEAD'' then None
      else
        (let p = (case prefix opts of
                    None \<Rightarrow> pathname req
                  | Some pre \<Rightarrow>
                      if pre \<noteq> [] \<and> starts_with pre (pathname req)
                      then drop (length pre) (pathname req) else pathname req)
         in if css_test p
            then (case root opts of
                    None \<Rightarrow>
                      (let cssPath = join w [dest opts, p];
                           sassPath = join w [src opts, replace ''.css'' ''.scss'' p]
                       in Some (sassPath, cssPath, dirname w sassPath))
                  | Some r \<Rightarrow>
                      (let cssPath = join w [r, dest opts, replace (dest opts) [] p];
                           sassPath =
                             join w [r, src opts,
                                     replace ''.css'' ''.scss'' (replace (dest opts) [] p)]
                       in Some (sassPath, cssPath, dirname w sassPath)))
            else None))"

text \<open>
  The call a request is waiting for, with the variables its callback closes over:
  the stat of the source (line 164), the stat of the output with \<^verbatim>\<open>sassStats.mtime\<close>
  (line 166), the stats of \<^verbatim>\<open>checkImports\<close> with \<^verbatim>\<open>time\<close> and \<^verbatim>\<open>nodes\<close> (line 218), the
  read of the source (line 142), the compiler (line 146), \<^verbatim>\<open>mkdirp\<close> and
  \<^verbatim>\<open>fs.writeFile\<close> with \<^verbatim>\<open>data\<close> (lines 123 and 125). The stats of \<^verbatim>\<open>checkImports\<close> are
  taken together: their callbacks touch \<^verbatim>\<open>pending\<close> and \<^verbatim>\<open>changed\<close> only.
\<close>

datatype waiting =
    StatSass
  | StatCss int
  | StatImports int "path list"
  | ReadSource
  | Rendering render_args
  | MakeDir string
  | WriteOut string

text \<open>The part of \<^verbatim>\<open>compile()\<close> that runs before \<^verbatim>\<open>fs.readFile\<close> returns (line 141).\<close>

definition compile_call :: "options \<Rightarrow> path \<Rightarrow> action list" where
  "compile_call opts cssPath = (if debug opts then log ''read'' cssPath else [])"

text \<open>One callback of a request: the new table, what it does, and the call it waits for next.\<close>

definition resume ::
  "options \<Rightarrow> world \<Rightarrow> path \<Rightarrow> path \<Rightarrow> path \<Rightarrow> waiting \<Rightarrow> import_table
     \<Rightarrow> import_table \<times> action list \<times> waiting option" where
  "resume opts w sassPath cssPath sassDir k im =
     (case k of
        StatSass \<Rightarrow>
          (case fs_stat w sassPath of
             Inl err \<Rightarrow> (im, Stat sassPath (Inl err) # error err, None)
           | Inr sassMtime \<Rightarrow> (im, [Stat sassPath (Inr sassMtime)], Some (StatCss sassMtime)))
      | StatCss sassMtime \<Rightarrow>
          (case fs_stat w cssPath of
             Inl err \<Rightarrow>
               if code err = ''ENOENT''
               then (im, [Stat cssPath (Inl err)]
                         @ (if debug opts then log ''not found'' cssPath else [])
                         @ compile_call opts cssPath, Some ReadSource)
               else (im, [Stat cssPath (Inl err), Next (Some err)], None)
           | Inr cssMtime \<Rightarrow>
               if sassMtime > cssMtime
               then (im, [Stat cssPath (Inr cssMtime)]
                         @ (if debug opts then log ''modified'' cssPath else [])
                         @ compile_call opts cssPath, Some ReadSource)
               else (case lookup w im sassPath of
                       Inherited Missing \<Rightarrow> (im, [Stat cssPath (Inr cssMtime), Next None], None)
                     | Inherited Plain \<Rightarrow> (im, [Stat cssPath (Inr cssMtime), Next None], None)
                     | Inherited Sized \<Rightarrow>
                         (im, [Stat cssPath (Inr cssMtime), Throw ''TypeError''], None)
                     | Entry nodes \<Rightarrow>
                         if nodes = []
                         then (im, [Stat cssPath (Inr cssMtime), Next None], None)
                         else (im, [Stat cssPath (Inr cssMtime)],
                               Some (StatImports cssMtime nodes))))
      | StatImports time nodes \<Rightarrow>
          (let changed = stat_nodes w time nodes [];
               stats = map (\<lambda>imported. Stat imported (fs_stat w imported)) nodes
           in if changed = [] then (im, stats @ [Next None], None)
              else (im, stats
                        @ (if debug opts
                           then concat (map (\<lambda>p. log ''modified import %s'' p) changed) else [])
                        @ compile_call opts cssPath, Some ReadSource))
      | ReadSource \<Rightarrow>
          (case fs_readFile w sassPath of
             Inl err \<Rightarrow> (im, ReadFile sassPath (Inl err) # error err, None)
           | Inr str \<Rightarrow>
               (table_delete im sassPath,
                [ReadFile sassPath (Inr str), LedgerDelete sassPath,
                 Render sassPath (render_options opts sassDir str)],
                Some (Rendering (render_options opts sassDir str))))
      | Rendering args \<Rightarrow>
          (case render w args of
             Inl err \<Rightarrow>
               (im,
                Done sassPath (Inl err)
                # (if debug opts then logError (diagnostic sassPath err) else [])
                @ (if error_opt opts then [ErrorCallback err] else [])
                @ respond (diagnostic sassPath err),
                None)
           | Inr result \<Rightarrow>
               (table_set im sassPath (includedFiles result),
                Done sassPath (Inr result)
                # (if debug opts
                   then log ''render'' (if response opts then ''<response>'' else sassPath)
                   else [])
                @ [LedgerSet sassPath (includedFiles result)]
                @ (if \<not> response opts then [Mkdirp (dirname w cssPath) 448] else [])
                @ respond (css result),
                if \<not> response opts then Some (MakeDir (css result)) else None))
      | MakeDir d \<Rightarrow>
          (case mkdirp w (dirname w cssPath) of
             Some err \<Rightarrow> (im, error err, None)
           | None \<Rightarrow> (im, [], Some (WriteOut d)))
      | WriteOut d \<Rightarrow>
          (im,
           WriteFile cssPath d (fs_writeFile w cssPath d)
           # (case fs_writeFile w cssPath d of Some err \<Rightarrow> error err | None \<Rightarrow> []),
           None))"

text \<open>
  The part of \<^verbatim>\<open>sass(req, res, next)\<close> that runs when the request arrives (lines 73-95
  and 156-164): it reads the table and changes nothing.
\<close>

type_synonym inflight = "options \<times> path \<times> path \<times> path \<times> waiting"

definition arrive ::
  "options \<Rightarrow> world \<Rightarrow> request \<Rightarrow> import_table \<Rightarrow> action list \<times> inflight option" where
  "arrive opts w req im =
     (case locate opts w req of
        None \<Rightarrow> ([Next None], None)
      | Some (sassPath, cssPath, sassDir) \<Rightarrow>
          (let logs = (if debug opts
                       then log ''source'' sassPath
                            @ log ''dest'' (if response opts then ''<response>'' else cssPath)
                       else [])
           in if force opts \<or> lookup w im sassPath = Inherited Missing
              then (logs @ compile_call opts cssPath,
                    Some (opts, sassPath, cssPath, sassDir, ReadSource))
              else (logs, Some (opts, sassPath, cssPath, sassDir, StatSass))))"

text \<open>
  The process: the table every request shares and the requests waiting for a callback.
  An event is a request arriving at a middleware made with some options, or the callback
  of the \<open>i\<close>-th waiting request being run; both come with the answers the collaborators
  give at that moment. Any list of events is a possible run.
\<close>

record process =
  table :: import_table
  waiters :: "inflight list"

datatype event = Arrives options world request | Returns nat world

fun exec :: "event \<Rightarrow> process \<Rightarrow> process \<times> action list" where
  "exec (Arrives opts w req) p =
     (case arrive opts w req (table p) of
        (acts, None) \<Rightarrow> (p, acts)
      | (acts, Some r) \<Rightarrow> (p\<lparr> waiters := waiters p @ [r] \<rparr>, acts))"
| "exec (Returns i w) p =
     (if i < length (waiters p)
      then (case waiters p ! i of
              (opts, sassPath, cssPath, sassDir, k) \<Rightarrow>
                (case resume opts w sassPath cssPath sassDir k (table p) of
                   (im, acts, None) \<Rightarrow>
                     (\<lparr> table = im, waiters = take i (waiters p) @ drop (Suc i) (waiters p) \<rparr>,
                      acts)
                 | (im, acts, Some k') \<Rightarrow>
                     (\<lparr> table = im,
                        waiters = (waiters p)[i := (opts, sassPath, cssPath, sassDir, k')] \<rparr>,
                      acts)))
      else (p, []))"

fun execs :: "event list \<Rightarrow> process \<Rightarrow> process \<times> action list" where
  "execs [] p = (p, [])"
| "execs (e # es) p =
     (let (p1, tr1) = exec e p;
          (p2, tr2) = execs es p1
      in (p2, tr1 @ tr2))"

text \<open>The process as it starts: \<^verbatim>\<open>imports = {}\<close> and nothing waiting.\<close>

definition start :: process where
  "start = \<lparr> table = empty_table, waiters = [] \<rparr>"

section \<open>Reading a trace\<close>

fun reads :: "action \<Rightarrow> bool" where
  "reads (ReadFile p r) = True"
| "reads _ = False"

fun stats :: "action \<Rightarrow> bool" where
  "stats (Stat p r) = True"
| "stats _ = False"

fun renders :: "action \<Rightarrow> bool" where
  "renders (Render p a) = True"
| "renders _ = False"



fun sends :: "action \<Rightarrow> bool" where
  "sends (WriteHead st hs) = True"
| "sends (End d) = True"
| "sends _ = False"

fun hands_on :: "action \<Rightarrow> bool" where
  "hands_on (Next e) = True"
| "hands_on _ = False"

fun head_ok :: "action \<Rightarrow> bool" where
  "head_ok (WriteHead st hs) =
     (st = 200 \<and> hs = [(''Content-Type'', ''text/css''), (''Cache-Control'', ''max-age=0'')])"
| "head_ok _ = True"

text \<open>Line 220 as a predicate: the stat of a recorded import fails or is newer than \<open>time\<close>.\<close>

definition import_changed :: "world \<Rightarrow> int \<Rightarrow> path \<Rightarrow> bool" where
  "import_changed w time imported =
     (case fs_stat w imported of Inl err \<Rightarrow> True | Inr mtime \<Rightarrow> mtime > time)"

text \<open>A compiler run for the source \<open>S\<close> that ended in success.\<close>

fun done_ok :: "path \<Rightarrow> action \<Rightarrow> bool" where
  "done_ok S (Done p (Inr r)) = (p = S)"
| "done_ok S _ = False"

text \<open>
  The compiler runs for the source \<open>S\<close> read off a trace from left to right: a run that
  starts leaves nothing, a run that ends in success leaves its included files, and
  nothing else counts. \<open>since_success S None tr\<close> holds a list exactly when some compiler
  run for \<open>S\<close> has succeeded and none has been started after the last such success.
\<close>

fun since_success :: "path \<Rightarrow> path list option \<Rightarrow> action list \<Rightarrow> path list option" where
  "since_success S e [] = e"
| "since_success S e (Render p args # tr) = since_success S (if p = S then None else e) tr"
| "since_success S e (Done p (Inr r) # tr) =
     since_success S (if p = S then Some (includedFiles r) else e) tr"
| "since_success S e (a # tr) = since_success S e tr"

section \<open>A small installation\<close>

text \<open>
  The properties of \<^verbatim>\<open>Object.prototype\<close> in Node, by what a read of them gives: the
  functions with parameters are \<open>Sized\<close>, those without and the prototype object itself
  are \<open>Plain\<close>. The installation never installs another prototype.
\<close>

definition object_prototype :: "path \<Rightarrow> inherited" where
  "object_prototype p =
     (if p \<in> set [''constructor'', ''hasOwnProperty'', ''isPrototypeOf'', ''propertyIsEnumerable'',
                   ''__defineGetter__'', ''__defineSetter__'', ''__lookupGetter__'',
                   ''__lookupSetter__'']
      then Sized
      else if p \<in> set [''toString'', ''valueOf'', ''toLocaleString'', ''__proto__''] then Plain
      else Missing)"

text \<open>
  \<^verbatim>\<open>sass.middleware({ src: '/src', dest: '/dest' })\<close>, a source \<^verbatim>\<open>/src/a.scss\<close> that
  imports \<^verbatim>\<open>/src/_b.scss\<close>, and an output \<^verbatim>\<open>/dest/a.css\<close> newer than both.
\<close>

definition ex_opts :: options where
  "ex_opts = \<lparr> force_opt = False, response = False, debug = False, src = ''/src'',
      dest_opt = Some ''/dest'', root_opt = None, prefix = None, error_opt = False,
      importer_opt = None, include_paths = None, includePaths_opt = None,
      image_path = None, imagePath_opt = None, output_style = None, outputStyle_opt = None \<rparr>"

definition ex_world :: world where
  "ex_world = \<lparr>
     fs_stat = (\<lambda>p. if p = ''/src/a.scss'' then Inr 100
                    else if p = ''/dest/a.css'' then Inr 200
                    else if p = ''/src/_b.scss'' then Inr 150
                    else Inl \<lparr> code = ''ENOENT'' \<rparr>),
     fs_readFile = (\<lambda>p. if p = ''/src/a.scss'' then Inr ''@import b;''
                        else Inl \<lparr> code = ''ENOENT'' \<rparr>),
     fs_writeFile = (\<lambda>p d. None),
     mkdirp = (\<lambda>p. None),
     render = (\<lambda>args. Inr \<lparr> css = ''b{}'', includedFiles = [''/src/_b.scss''] \<rparr>),
     join = concat,
     dirname = (\<lambda>p. if p = ''/dest/a.css'' then ''/dest'' else ''/src''),
     chain = (\<lambda>pr. object_prototype) \<rparr>"

definition ex_imports :: import_table where
  "ex_imports = \<lparr> own = [''/src/a.scss'' \<mapsto> [''/src/_b.scss'']], proto = None \<rparr>"

definition ex_request :: request where
  "ex_request = \<lparr> req_method = ''GET'', pathname = ''/a.css'' \<rparr>"

text \<open>The source cannot be read.\<close>

definition ex_unreadable :: world where
  "ex_unreadable = ex_world\<lparr> fs_readFile := (\<lambda>p. Inl \<lparr> code = ''EACCES'' \<rparr>) \<rparr>"

text \<open>The source edited after the output was written, into something the compiler rejects.\<close>

definition ex_broken :: world where
  "ex_broken = ex_world\<lparr>
     fs_stat := (fs_stat ex_world)(''/src/a.scss'' := Inr 300),
     render := (\<lambda>args. Inl \<lparr> message = ''bad'', line = ''12'', column = ''7'' \<rparr>) \<rparr>"

text \<open>The destination directory cannot be created.\<close>

definition ex_readonly :: world where
  "ex_readonly = ex_world\<lparr> mkdirp := (\<lambda>p. Some \<lparr> code = ''EACCES'' \<rparr>) \<rparr>"

text \<open>
  The compiler rejects the source with a message of two lines that holds the end of a
  comment: \<^verbatim>\<open>*/b{}\<close>, newline, \<^verbatim>\<open>/*\<close>.
\<close>

definition ex_injecting :: world where
  "ex_injecting = ex_world\<lparr>
     render := (\<lambda>args. Inl \<lparr> message = ''*/b{}'' @ [CHR 0x0A] @ ''/*'', line = ''12'',
                             column = ''7'' \<rparr>) \<rparr>"

text \<open>The table after a compile that still included \<^verbatim>\<open>/src/_old.scss\<close>.\<close>

definition ex_old_imports :: import_table where
  "ex_old_imports =
     \<lparr> own = [''/src/a.scss'' \<mapsto> [''/src/_b.scss'', ''/src/_old.scss'']], proto = None \<rparr>"

text \<open>
  \<^verbatim>\<open>sass.middleware({ src: '.', dest: '/.css', root: 'constructor' })\<close> and the request
  \<^verbatim>\<open>GET /.css\<close>: the source is the file \<^verbatim>\<open>constructor\<close> of the working directory.
  \<open>join\<close> gives what \<^verbatim>\<open>path.join\<close> gives for the two calls of lines 85-88.
\<close>

definition proto_opts :: options where
  "proto_opts = ex_opts\<lparr> src := ''.'', dest_opt := Some ''/.css'', root_opt := Some ''constructor'' \<rparr>"

definition proto_world :: world where
  "proto_world = \<lparr>
     fs_stat = (\<lambda>p. if p = ''constructor'' then Inr 100 else Inl \<lparr> code = ''ENOTDIR'' \<rparr>),
     fs_readFile = (\<lambda>p. if p = ''constructor'' then Inr ''a{}''
                        else Inl \<lparr> code = ''ENOTDIR'' \<rparr>),
     fs_writeFile = (\<lambda>p d. Some \<lparr> code = ''ENOTDIR'' \<rparr>),
     mkdirp = (\<lambda>p. Some \<lparr> code = ''ENOTDIR'' \<rparr>),
     render = (\<lambda>args. Inr \<lparr> css = ''a{}'', includedFiles = [] \<rparr>),
     join = (\<lambda>ps. if ps = [''constructor'', ''.'', []] then ''constructor''
                   else if ps = [''constructor'', ''/.css'', []] then ''constructor/.css''
                   else concat ps),
     dirname = (\<lambda>p. if p = ''constructor/.css'' then ''constructor'' else ''.''),
     chain = (\<lambda>pr. object_prototype) \<rparr>"

definition proto_request :: request where
  "proto_request = \<lparr> req_method = ''GET'', pathname = ''/.css'' \<rparr>"

section \<open>Lemmas\<close>

lemmas model_defs =
  resolve_def compare_mtimes_def imports_checked_def checkImports_def compile_def done_cb_def
  persist_def respond_def headers_def error_def log_def logError_def render_options_def
  or_else_def force_def import_changed_def diagnostic_def lookup_def entry_def
  table_delete_def table_set_def empty_table_def

lemmas sass_defs = sass_def css_test_def starts_with_def dest_def root_def Let_def

lemmas step_defs = arrive_def resume_def locate_def compile_call_def start_def

lemmas ex_defs =
  ex_opts_def ex_world_def ex_imports_def ex_old_imports_def ex_request_def ex_broken_def
  ex_readonly_def ex_unreadable_def ex_injecting_def object_prototype_def
  proto_opts_def proto_world_def proto_request_def

subsection \<open>One request alone\<close>

text \<open>
  A request whose callbacks run with no other request between them, against collaborators
  that answer the same throughout, does what \<open>sass\<close> says: the two readings of the code
  agree.
\<close>

lemma idle:
  "execs (replicate n (Returns i w)) \<lparr> table = im, waiters = [] \<rparr>
   = (\<lparr> table = im, waiters = [] \<rparr>, [])"
  by (induction n) simp_all

lemma settle_WriteOut:
  assumes "1 \<le> n"
  shows "execs (replicate n (Returns 0 w))
           \<lparr> table = im, waiters = [(opts, sassPath, cssPath, sassDir, WriteOut d)] \<rparr>
         = (\<lparr> table = im, waiters = [] \<rparr>,
            WriteFile cssPath d (fs_writeFile w cssPath d)
            # (case fs_writeFile w cssPath d of Some err \<Rightarrow> error err | None \<Rightarrow> []))"
proof -
  from assms obtain m where n: "n = Suc m" by (cases n) auto
  show ?thesis
    by (simp add: n resume_def idle)
qed

lemma settle_MakeDir:
  assumes "2 \<le> n"
  shows "execs (replicate n (Returns 0 w))
           \<lparr> table = im, waiters = [(opts, sassPath, cssPath, sassDir, MakeDir d)] \<rparr>
         = (\<lparr> table = im, waiters = [] \<rparr>, persist w cssPath d)"
proof -
  from assms obtain m where n: "n = Suc m" and m: "1 \<le> m" by (cases n) auto
  show ?thesis
    by (cases "mkdirp w (dirname w cssPath)")
       (simp_all add: n resume_def idle persist_def settle_WriteOut [OF m])
qed

lemma settle_Rendering:
  assumes "3 \<le> n"
  shows "execs (replicate n (Returns 0 w))
           \<lparr> table = im, waiters = [(opts, sassPath, cssPath, sassDir, Rendering args)] \<rparr>
         = (\<lparr> table = fst (done_cb opts w sassPath cssPath (render w args) im), waiters = [] \<rparr>,
            Done sassPath (render w args)
            # snd (done_cb opts w sassPath cssPath (render w args) im))"
proof -
  from assms obtain m where n: "n = Suc m" and m: "2 \<le> m" by (cases n) auto
  show ?thesis
    by (cases "render w args")
       (simp_all add: n resume_def idle done_cb_def settle_MakeDir [OF m])
qed

lemma settle_ReadSource:
  assumes "4 \<le> n"
  shows "\<exists>tr. execs (replicate n (Returns 0 w))
           \<lparr> table = im, waiters = [(opts, sassPath, cssPath, sassDir, ReadSource)] \<rparr>
         = (\<lparr> table = fst (compile opts w sassPath cssPath sassDir im), waiters = [] \<rparr>, tr)
         \<and> compile_call opts cssPath @ tr = snd (compile opts w sassPath cssPath sassDir im)"
proof -
  from assms obtain m where n: "n = Suc m" and m: "3 \<le> m" by (cases n) auto
  show ?thesis
    by (cases "fs_readFile w sassPath")
       (simp_all add: n resume_def idle compile_def compile_call_def Let_def case_prod_beta
          settle_Rendering [OF m])
qed


lemma settle_StatImports:
  assumes "5 \<le> n" and "nodes \<noteq> []"
  shows "execs (replicate n (Returns 0 w))
           \<lparr> table = im, waiters = [(opts, sassPath, cssPath, sassDir, StatImports time nodes)] \<rparr>
         = (\<lparr> table = fst (imports_checked opts w sassPath cssPath sassDir
                              (Some (stat_nodes w time nodes [])) im),
              waiters = [] \<rparr>,
            map (\<lambda>imported. Stat imported (fs_stat w imported)) nodes
            @ snd (imports_checked opts w sassPath cssPath sassDir
                     (Some (stat_nodes w time nodes [])) im))"
proof -
  from assms obtain m where n: "n = Suc m" and m: "4 \<le> m" by (cases n) auto
  from settle_ReadSource [OF m, of w im opts sassPath cssPath sassDir]
  obtain tr where
    e: "execs (replicate m (Returns 0 w))
           \<lparr> table = im, waiters = [(opts, sassPath, cssPath, sassDir, ReadSource)] \<rparr>
         = (\<lparr> table = fst (compile opts w sassPath cssPath sassDir im), waiters = [] \<rparr>, tr)"
    and t: "compile_call opts cssPath @ tr = snd (compile opts w sassPath cssPath sassDir im)"
    by blast
  show ?thesis
    by (simp add: n resume_def idle imports_checked_def Let_def case_prod_beta e t [symmetric])
qed

lemma settle_StatCss:
  assumes "6 \<le> n" and s: "fs_stat w sassPath = Inr sassMtime"
  shows "\<exists>tr. execs (replicate n (Returns 0 w))
           \<lparr> table = im, waiters = [(opts, sassPath, cssPath, sassDir, StatCss sassMtime)] \<rparr>
         = (\<lparr> table = fst (compare_mtimes opts w sassPath cssPath sassDir im), waiters = [] \<rparr>, tr)
         \<and> Stat sassPath (Inr sassMtime) # tr
           = snd (compare_mtimes opts w sassPath cssPath sassDir im)"
proof -
  from assms obtain m where n: "n = Suc m" and m5: "5 \<le> m" and m4: "4 \<le> m"
    by (cases n) auto
  from settle_ReadSource [OF m4, of w im opts sassPath cssPath sassDir]
  obtain tr where
    e: "execs (replicate m (Returns 0 w))
           \<lparr> table = im, waiters = [(opts, sassPath, cssPath, sassDir, ReadSource)] \<rparr>
         = (\<lparr> table = fst (compile opts w sassPath cssPath sassDir im), waiters = [] \<rparr>, tr)"
    and t: "compile_call opts cssPath @ tr = snd (compile opts w sassPath cssPath sassDir im)"
    by blast
  show ?thesis
  proof (cases "fs_stat w cssPath")
    case (Inl err)
    then show ?thesis
      by (simp add: n s resume_def idle compare_mtimes_def case_prod_beta e t [symmetric])
  next
    case (Inr cssMtime)
    show ?thesis
    proof (cases "sassMtime > cssMtime")
      case True
      then show ?thesis
        by (simp add: n s Inr resume_def idle compare_mtimes_def case_prod_beta e t [symmetric])
    next
      case False
      show ?thesis
      proof (cases "lookup w im sassPath")
        case (Inherited v)
        then show ?thesis
          using False
          by (cases v)
             (simp_all add: n s Inr resume_def idle compare_mtimes_def checkImports_def
                imports_checked_def)
      next
        case (Entry nodes)
        show ?thesis
        proof (cases "nodes = []")
          case True
          then show ?thesis
            using False
            by (simp add: n s Inr Entry resume_def idle compare_mtimes_def checkImports_def
                imports_checked_def)
        next
          case nonempty: False
          then show ?thesis
            using False
            by (simp add: n s Inr Entry resume_def compare_mtimes_def checkImports_def
                case_prod_beta settle_StatImports [OF m5 nonempty])
        qed
      qed
    qed
  qed
qed

lemma settle_StatSass:
  assumes "7 \<le> n"
  shows "execs (replicate n (Returns 0 w))
           \<lparr> table = im, waiters = [(opts, sassPath, cssPath, sassDir, StatSass)] \<rparr>
         = (\<lparr> table = fst (compare_mtimes opts w sassPath cssPath sassDir im), waiters = [] \<rparr>,
            snd (compare_mtimes opts w sassPath cssPath sassDir im))"
proof -
  from assms obtain m where n: "n = Suc m" and m: "6 \<le> m" by (cases n) auto
  show ?thesis
  proof (cases "fs_stat w sassPath")
    case (Inl err)
    then show ?thesis
      by (simp add: n resume_def idle compare_mtimes_def)
  next
    case (Inr sassMtime)
    from settle_StatCss [OF m Inr, of im opts cssPath sassDir]
    obtain tr where
      e: "execs (replicate m (Returns 0 w))
           \<lparr> table = im, waiters = [(opts, sassPath, cssPath, sassDir, StatCss sassMtime)] \<rparr>
         = (\<lparr> table = fst (compare_mtimes opts w sassPath cssPath sassDir im), waiters = [] \<rparr>, tr)"
      and t: "Stat sassPath (Inr sassMtime) # tr
           = snd (compare_mtimes opts w sassPath cssPath sassDir im)"
      by blast
    show ?thesis
      by (simp add: n Inr resume_def e t [symmetric])
  qed
qed

lemma sass_locate:
  "sass opts w req im
   = (case locate opts w req of
        None \<Rightarrow> (im, [Next None])
      | Some (sassPath, cssPath, sassDir) \<Rightarrow> resolve opts w sassPath cssPath sassDir im)"
  by (simp add: sass_def locate_def Let_def split: option.splits)

theorem handled_alone:
  "execs (Arrives opts w req # replicate 7 (Returns 0 w)) \<lparr> table = im, waiters = [] \<rparr>
   = (\<lparr> table = fst (sass opts w req im), waiters = [] \<rparr>, snd (sass opts w req im))"
proof (cases "locate opts w req")
  case None
  then show ?thesis
    by (simp add: sass_locate arrive_def idle)
next
  case (Some t)
  obtain sassPath cssPath sassDir where t: "t = (sassPath, cssPath, sassDir)"
    by (cases t)
  have four: "(4::nat) \<le> 7" and seven: "(7::nat) \<le> 7" by simp_all
  from settle_ReadSource [OF four, of w im opts sassPath cssPath sassDir]
  obtain tr where
    e: "execs (replicate 7 (Returns 0 w))
           \<lparr> table = im, waiters = [(opts, sassPath, cssPath, sassDir, ReadSource)] \<rparr>
         = (\<lparr> table = fst (compile opts w sassPath cssPath sassDir im), waiters = [] \<rparr>, tr)"
    and c: "compile_call opts cssPath @ tr = snd (compile opts w sassPath cssPath sassDir im)"
    by blast
  show ?thesis
  proof (cases "force opts \<or> lookup w im sassPath = Inherited Missing")
    case True
    then show ?thesis
      by (auto simp: sass_locate Some t arrive_def resolve_def Let_def case_prod_beta e
          c [symmetric])
  next
    case False
    then show ?thesis
      by (simp add: sass_locate Some t arrive_def resolve_def Let_def case_prod_beta
          settle_StatSass [OF seven])
  qed
qed

subsection \<open>What every callback does to the table\<close>

lemma since_success_append:
  "since_success S e (xs @ ys) = since_success S (since_success S e xs) ys"
  by (induction S e xs rule: since_success.induct) simp_all

lemma since_success_quiet:
  "\<not> list_ex renders tr \<Longrightarrow> \<not> list_ex (done_ok S) tr \<Longrightarrow> since_success S e tr = e"
  by (induction S e tr rule: since_success.induct) auto

lemma since_success_found:
  "since_success S e tr \<noteq> e \<Longrightarrow> since_success S e tr \<noteq> None \<Longrightarrow> list_ex (done_ok S) tr"
  by (induction S e tr rule: since_success.induct) (auto split: if_splits)

lemma since_success_stats:
  "since_success S e (map (\<lambda>i. Stat i (f i)) nodes @ tr) = since_success S e tr"
  by (induction nodes) simp_all

lemma since_success_logs:
  "since_success S e (concat (map (\<lambda>p. [Log k p]) ch) @ tr) = since_success S e tr"
  by (induction ch) simp_all

lemma entry_delete:
  "S \<noteq> ''__proto__'' \<Longrightarrow> entry (table_delete im p) S = (if p = S then None else entry im S)"
  by (simp add: entry_def table_delete_def)

lemma entry_set:
  "S \<noteq> ''__proto__'' \<Longrightarrow> entry (table_set im p files) S = (if p = S then Some files else entry im S)"
  by (auto simp: entry_def table_set_def)

lemma resume_effect:
  assumes "S \<noteq> ''__proto__''"
    and "resume opts w sassPath cssPath sassDir k im = (im', acts, k')"
  shows "entry im' S = since_success S (entry im S) acts"
proof (cases k)
  case StatSass
  with assms(2) show ?thesis
    by (auto simp: resume_def error_def split: sum.splits)
next
  case (StatCss sassMtime)
  with assms(2) show ?thesis
    by (auto simp: resume_def log_def compile_call_def
        split: sum.splits if_splits js_value.splits inherited.splits)
next
  case (StatImports time nodes)
  with assms(2) have "im' = im" and "\<not> list_ex renders acts" and "\<not> list_ex (done_ok S) acts"
    by (auto simp: resume_def log_def compile_call_def Let_def list_ex_iff split: if_splits)
  then show ?thesis
    by (simp add: since_success_quiet)
next
  case ReadSource
  with assms show ?thesis
    by (auto simp: resume_def error_def entry_delete split: sum.splits)
next
  case (Rendering args)
  with assms show ?thesis
    by (auto simp: resume_def respond_def log_def logError_def entry_set split: sum.splits)
next
  case (MakeDir d)
  with assms(2) show ?thesis
    by (auto simp: resume_def error_def split: option.splits)
next
  case (WriteOut d)
  with assms(2) show ?thesis
    by (auto simp: resume_def error_def split: option.splits)
qed

lemma arrive_quiet:
  assumes "arrive opts w req im = (acts, r)"
  shows "\<not> list_ex renders acts \<and> \<not> list_ex (done_ok S) acts"
  using assms
  by (auto simp: arrive_def log_def compile_call_def Let_def split: option.splits if_splits)

lemma exec_effect:
  assumes "S \<noteq> ''__proto__''" and "exec e p = (p', acts)"
  shows "entry (table p') S = since_success S (entry (table p) S) acts"
proof (cases e)
  case (Arrives opts w req)
  obtain a r where ar: "arrive opts w req (table p) = (a, r)"
    by (cases "arrive opts w req (table p)")
  from arrive_quiet [OF ar, of S] have q: "since_success S (entry (table p) S) a = entry (table p) S"
    by (simp add: since_success_quiet)
  from assms(2) Arrives ar q show ?thesis
    by (cases r) auto
next
  case (Returns i w)
  show ?thesis
  proof (cases "i < length (waiters p)")
    case False
    with assms(2) Returns show ?thesis by simp
  next
    case True
    obtain opts sassPath cssPath sassDir k
      where wi: "waiters p ! i = (opts, sassPath, cssPath, sassDir, k)"
      by (cases "waiters p ! i")
    obtain im a k' where r: "resume opts w sassPath cssPath sassDir k (table p) = (im, a, k')"
      by (cases "resume opts w sassPath cssPath sassDir k (table p)")
    from resume_effect [OF assms(1) r]
    have "entry im S = since_success S (entry (table p) S) a" .
    with assms(2) Returns True wi r show ?thesis
      by (cases k') auto
  qed
qed

lemma execs_effect:
  assumes "S \<noteq> ''__proto__''"
  shows "entry (table (fst (execs es p))) S = since_success S (entry (table p) S) (snd (execs es p))"
proof (induction es arbitrary: p)
  case Nil
  show ?case by simp
next
  case (Cons e es)
  obtain p1 t1 where e: "exec e p = (p1, t1)"
    by (cases "exec e p")
  from exec_effect [OF assms e] Cons.IH [of p1] show ?case
    by (simp add: e case_prod_beta since_success_append)
qed

subsection \<open>The table\<close>

lemma lookup_entry: "entry im p = Some nodes \<Longrightarrow> lookup w im p = Entry nodes"
  by (simp add: lookup_def)


subsection \<open>The import check\<close>

lemma stat_nodes_filter:
  "stat_nodes w time nodes changed = changed @ filter (import_changed w time) nodes"
  by (induction nodes arbitrary: changed) (auto simp: import_changed_def split: sum.splits)

lemma checkImports_entry:
  assumes "entry im p = Some nodes"
  shows "checkImports w im p time
       = (if nodes = [] then (Called None, [])
          else (Called (Some (filter (import_changed w time) nodes)),
                map (\<lambda>i. Stat i (fs_stat w i)) nodes))"
  by (simp add: checkImports_def lookup_entry [OF assms] stat_nodes_filter)


subsection \<open>The recompile path\<close>

lemma compile_no_stat:
  "\<not> list_ex stats (snd (compile opts w sassPath cssPath sassDir im))"
  by (auto simp: compile_def done_cb_def persist_def error_def log_def logError_def respond_def
      Let_def split: sum.splits option.splits)


lemma compile_trace_read_ok:
  assumes "fs_readFile w sassPath = Inr str"
  shows "snd (compile opts w sassPath cssPath sassDir im)
       = ((if debug opts then [Log ''read'' cssPath] else []) @ [ReadFile sassPath (Inr str)])
         @ LedgerDelete sassPath
         # Render sassPath (render_options opts sassDir str)
         # Done sassPath (render w (render_options opts sassDir str))
         # snd (done_cb opts w sassPath cssPath (render w (render_options opts sassDir str))
                 (table_delete im sassPath))"
  using assms by (simp add: compile_def Let_def case_prod_beta log_def)


lemma compile_read_failed:
  assumes "fs_readFile w sassPath = Inl err"
  shows "compile opts w sassPath cssPath sassDir im
       = (im, (if debug opts then [Log ''read'' cssPath] else [])
              @ [ReadFile sassPath (Inl err), Next (if code err = ''ENOENT'' then None else Some err)])"
  using assms by (simp add: compile_def error_def log_def)

lemma done_cb_quiet:
  "\<not> list_ex renders (snd (done_cb opts w sassPath cssPath res im))"
  "\<not> list_ex reads (snd (done_cb opts w sassPath cssPath res im))"
  by (auto simp: done_cb_def persist_def respond_def error_def log_def logError_def
      split: sum.splits option.splits)







lemma resolve_import_check:
  assumes "\<not> force opts"
    and "entry im sassPath = Some nodes"
    and "fs_stat w sassPath = Inr sassMtime"
    and "fs_stat w cssPath = Inr cssMtime"
    and "\<not> sassMtime > cssMtime"
  shows "resolve opts w sassPath cssPath sassDir im
       = (if \<exists>p \<in> set nodes. import_changed w cssMtime p
          then (fst (compile opts w sassPath cssPath sassDir im),
                (if debug opts then [Log ''source'' sassPath, Log ''dest'' cssPath] else [])
                @ [Stat sassPath (Inr sassMtime), Stat cssPath (Inr cssMtime)]
                @ map (\<lambda>p. Stat p (fs_stat w p)) nodes
                @ (if debug opts
                   then concat (map (\<lambda>p. log ''modified import %s'' p)
                                  (filter (import_changed w cssMtime) nodes))
                   else [])
                @ snd (compile opts w sassPath cssPath sassDir im))
          else (im,
                (if debug opts then [Log ''source'' sassPath, Log ''dest'' cssPath] else [])
                @ [Stat sassPath (Inr sassMtime), Stat cssPath (Inr cssMtime)]
                @ map (\<lambda>p. Stat p (fs_stat w p)) nodes
                @ [Next None]))"
  using assms
  by (auto simp: resolve_def compare_mtimes_def checkImports_entry imports_checked_def
      lookup_entry log_def force_def case_prod_beta filter_empty_conv)


subsection \<open>What is sent\<close>

lemma persist_head_ok: "list_all head_ok (persist w cssPath d)"
  by (simp add: persist_def error_def split: option.splits)

lemma persist_no_sends: "filter sends (persist w cssPath d) = []"
  by (simp add: persist_def error_def split: option.splits)

lemma done_cb_head_ok: "list_all head_ok (snd (done_cb opts w sassPath cssPath res im))"
  by (cases res)
     (simp_all add: done_cb_def persist_head_ok respond_def headers_def log_def logError_def)

lemma done_cb_sends:
  "\<exists>body. filter sends (snd (done_cb opts w sassPath cssPath res im))
     = [WriteHead 200 [(''Content-Type'', ''text/css''), (''Cache-Control'', ''max-age=0'')],
        End body]"
  by (cases res)
     (simp_all add: done_cb_def persist_no_sends respond_def headers_def log_def logError_def)

lemma compile_head_ok: "list_all head_ok (snd (compile opts w sassPath cssPath sassDir im))"
proof (cases "fs_readFile w sassPath")
  case (Inl err)
  then show ?thesis by (simp add: compile_read_failed)
next
  case (Inr str)
  show ?thesis
    by (simp add: compile_trace_read_ok [OF Inr] done_cb_head_ok)
qed

lemma imports_checked_head_ok:
  "list_all head_ok (snd (imports_checked opts w sassPath cssPath sassDir changed im))"
proof -
  have "list_all head_ok (concat (map (log ''modified import %s'') ch))" for ch
    by (induction ch) (simp_all add: log_def)
  then show ?thesis
    by (simp add: imports_checked_def case_prod_beta compile_head_ok split: option.splits)
qed

lemma checkImports_head_ok: "list_all head_ok (snd (checkImports w im p t))"
  by (simp add: checkImports_def list_all_iff split: js_value.splits inherited.splits)

lemma compare_mtimes_head_ok:
  "list_all head_ok (snd (compare_mtimes opts w sassPath cssPath sassDir im))"
  by (simp add: compare_mtimes_def case_prod_beta Let_def log_def error_def
      compile_head_ok imports_checked_head_ok checkImports_head_ok
      split: sum.splits checked.splits)

lemma resolve_head_ok:
  "list_all head_ok (snd (resolve opts w sassPath cssPath sassDir im))"
  by (simp add: resolve_def case_prod_beta log_def compile_head_ok compare_mtimes_head_ok)

lemma sass_head_ok: "list_all head_ok (snd (sass opts w req im))"
  by (simp add: sass_def Let_def resolve_head_ok split: option.splits)

section \<open>Claims\<close>

subsection \<open>C1: the import check\<close>




subsection \<open>C2: source against output\<close>




subsection \<open>C3: no entry\<close>

text \<open>
  When the read \<^verbatim>\<open>imports[sassPath]\<close> finds nothing, \<open>resolve\<close> takes the recompile
  path at once and stats nothing, whatever the options and the file system.
\<close>

lemma nothing_found_recompiles_without_stat:
  assumes "lookup w im sassPath = Inherited Missing"
  shows "resolve opts w sassPath cssPath sassDir im
           = (fst (compile opts w sassPath cssPath sassDir im),
              (if debug opts
               then [Log ''source'' sassPath,
                     Log ''dest'' (if response opts then ''<response>'' else cssPath)] else [])
              @ snd (compile opts w sassPath cssPath sassDir im))
       \<and> \<not> list_ex stats (snd (resolve opts w sassPath cssPath sassDir im))"
  using assms compile_no_stat [of opts w sassPath cssPath sassDir im]
  by (simp add: resolve_def log_def case_prod_beta)

text \<open>
  C3 fails on the code for a source whose path names a property that \<^verbatim>\<open>imports\<close>
  inherits. A middleware made with \<^verbatim>\<open>{ src: '.', dest: '/.css', root: 'constructor' }\<close>
  maps the request \<^verbatim>\<open>GET /.css\<close> to the source \<^verbatim>\<open>constructor\<close>. The table is empty, so
  the source has no entry, but \<^verbatim>\<open>imports['constructor']\<close> is the inherited function
  \<^verbatim>\<open>Object\<close>, line 161 does not return, and the code compares modification times: it
  stats the source and the output and, the output's stat failing, calls \<^verbatim>\<open>next(err)\<close>.
  The source is never compiled.
\<close>

theorem inherited_key_is_not_compiled:
  "entry empty_table ''constructor'' = None
   \<and> locate proto_opts proto_world proto_request = Some (''constructor'', ''constructor/.css'', ''.'')
   \<and> sass proto_opts proto_world proto_request empty_table
      = (empty_table,
         [Stat ''constructor'' (Inr 100),
          Stat ''constructor/.css'' (Inl \<lparr> code = ''ENOTDIR'' \<rparr>),
          Next (Some \<lparr> code = ''ENOTDIR'' \<rparr>)])"
  by (simp add: ex_defs sass_defs model_defs locate_def)

subsection \<open>C4: the cache hit\<close>

text \<open>
  C4, as amended. With the force flag unset, a Ledger entry, a source not strictly newer
  than the output and no recorded import changed, \<open>resolve\<close> neither reads the output nor
  sends a response: after the stats it calls \<^verbatim>\<open>next()\<close> with no error and leaves the
  Ledger as it was, so that a later handler serves the output file.
\<close>

theorem cache_hit_hands_on:
  assumes "\<not> force opts"
    and "entry im sassPath = Some nodes"
    and "fs_stat w sassPath = Inr sassMtime"
    and "fs_stat w cssPath = Inr cssMtime"
    and "\<not> sassMtime > cssMtime"
    and "\<forall>p \<in> set nodes. \<not> import_changed w cssMtime p"
  shows "resolve opts w sassPath cssPath sassDir im =
           (im,
            (if debug opts
             then [Log ''source'' sassPath, Log ''dest'' cssPath] else [])
            @ [Stat sassPath (Inr sassMtime), Stat cssPath (Inr cssMtime)]
            @ map (\<lambda>p. Stat p (fs_stat w p)) nodes
            @ [Next None])"
  using assms(6)
  by (simp add: resolve_import_check [OF assms(1-5)])

theorem cache_hit_hands_on_witness:
  "\<not> force ex_opts
   \<and> entry ex_imports ''/src/a.scss'' = Some [''/src/_b.scss'']
   \<and> fs_stat ex_world ''/src/a.scss'' = Inr 100
   \<and> fs_stat ex_world ''/dest/a.css'' = Inr 200
   \<and> \<not> import_changed ex_world 200 ''/src/_b.scss''
   \<and> resolve ex_opts ex_world ''/src/a.scss'' ''/dest/a.css'' ''/src'' ex_imports
       = (ex_imports,
          [Stat ''/src/a.scss'' (Inr 100), Stat ''/dest/a.css'' (Inr 200),
           Stat ''/src/_b.scss'' (Inr 150), Next None])"
  using cache_hit_hands_on [of ex_opts ex_imports "''/src/a.scss''" "[''/src/_b.scss'']" ex_world
      100 "''/dest/a.css''" 200 "''/src''"]
  by (simp add: ex_defs force_def import_changed_def entry_def)

text \<open>
  The claim as written fails on a cache hit: the whole trace is three stats and
  \<^verbatim>\<open>next()\<close>; the output is not read and no body is sent.
\<close>

theorem cache_hit_sends_no_body:
  "\<not> force ex_opts
   \<and> entry ex_imports ''/src/a.scss'' = Some [''/src/_b.scss'']
   \<and> fs_stat ex_world ''/src/a.scss'' = Inr 100
   \<and> fs_stat ex_world ''/dest/a.css'' = Inr 200
   \<and> fs_stat ex_world ''/src/_b.scss'' = Inr 150
   \<and> snd (resolve ex_opts ex_world ''/src/a.scss'' ''/dest/a.css'' ''/src'' ex_imports)
       = [Stat ''/src/a.scss'' (Inr 100), Stat ''/dest/a.css'' (Inr 200),
          Stat ''/src/_b.scss'' (Inr 150), Next None]"
  by (simp add: ex_defs model_defs)

subsection \<open>C5: the entry is replaced, never merged\<close>




subsection \<open>C6: a failed compile writes nothing\<close>



subsection \<open>C7: the diagnostic\<close>

text \<open>
  When the compiler returns an error the request is answered, not handed on: the trace
  ends with status 200 and the diagnostic text as the body, nothing else is sent, and
  \<^verbatim>\<open>next\<close> is not called. The body is a CSS comment around the compiler's message
  followed by \<^verbatim>\<open> in \<close>, the source path, the line and the column, and a \<^verbatim>\<open>body:before\<close>
  rule whose \<^verbatim>\<open>content\<close> string repeats them with every newline escaped.
\<close>

lemma replace_newlines_none: "CHR 0x0A \<notin> set (replace_newlines s)"
  by (induction s) simp_all

lemma replace_newlines_same: "CHR 0x0A \<notin> set s \<Longrightarrow> replace_newlines s = s"
  by (induction s) auto

lemma failed_compile_answers_with_diagnostic:
  assumes "fs_readFile w sassPath = Inr str"
    and "render w (render_options opts sassDir str) = Inl err"
  shows "(\<exists>pre. snd (compile opts w sassPath cssPath sassDir im)
                 = pre @ [WriteHead 200 headers, End (diagnostic sassPath err)]
               \<and> \<not> list_ex sends pre)
       \<and> \<not> list_ex hands_on (snd (compile opts w sassPath cssPath sassDir im))
       \<and> diagnostic sassPath err
           = ''/*'' @ [CHR 0x0A] @ message err @ '' in '' @ sassPath @ '':'' @ line err @ '':''
             @ column err @ [CHR 0x0A] @ ''*/'' @ [CHR 0x0A]
             @ ''body:before { white-space: pre; font-family: monospace; content: '' @ [CHR 0x22]
             @ replace_newlines (message err @ '' in '' @ sassPath @ '':'' @ line err @ '':''
                                 @ column err)
             @ [CHR 0x22]"
proof (intro conjI)
  let ?pre = "(if debug opts then [Log ''read'' cssPath] else []) @ [ReadFile sassPath (Inr str)]
      @ [LedgerDelete sassPath, Render sassPath (render_options opts sassDir str),
         Done sassPath (Inl err)]
      @ (if debug opts then logError (diagnostic sassPath err) else [])
      @ (if error_opt opts then [ErrorCallback err] else [])"
  have "snd (compile opts w sassPath cssPath sassDir im)
          = ?pre @ [WriteHead 200 headers, End (diagnostic sassPath err)]"
    using assms(2) by (simp add: compile_trace_read_ok [OF assms(1)] done_cb_def respond_def)
  moreover have "\<not> list_ex sends ?pre"
    by (simp add: logError_def log_def)
  ultimately show "\<exists>pre. snd (compile opts w sassPath cssPath sassDir im)
                 = pre @ [WriteHead 200 headers, End (diagnostic sassPath err)]
               \<and> \<not> list_ex sends pre"
    by blast
  show "\<not> list_ex hands_on (snd (compile opts w sassPath cssPath sassDir im))"
    using assms(2)
    by (simp add: compile_trace_read_ok [OF assms(1)] done_cb_def respond_def logError_def log_def)
  show "diagnostic sassPath err
           = ''/*'' @ [CHR 0x0A] @ message err @ '' in '' @ sassPath @ '':'' @ line err @ '':''
             @ column err @ [CHR 0x0A] @ ''*/'' @ [CHR 0x0A]
             @ ''body:before { white-space: pre; font-family: monospace; content: '' @ [CHR 0x22]
             @ replace_newlines (message err @ '' in '' @ sassPath @ '':'' @ line err @ '':''
                                 @ column err)
             @ [CHR 0x22]"
    by (simp add: diagnostic_def Let_def)
qed

text \<open>
  C7 fails on the code in its last part: the body is not inert for every message. Line
  111 escapes newlines and nothing else, so a message holding \<^verbatim>\<open>*/\<close> ends the comment it
  is put in. For the two-line message \<^verbatim>\<open>*/b{}\<close>, \<^verbatim>\<open>/*\<close> at line 12, column 7 of
  \<^verbatim>\<open>/src/a.scss\<close> the body begins with the empty comment \<^verbatim>\<open>/*\<close>, newline, \<^verbatim>\<open>*/\<close>, and
  the rule \<^verbatim>\<open>b{}\<close> of the message follows it as style sheet text; in the \<^verbatim>\<open>content\<close>
  string the newline of the message is escaped and nothing else is.
\<close>

theorem diagnostic_not_inert:
  "snd (sass ex_opts ex_injecting ex_request empty_table)
     = [ReadFile ''/src/a.scss'' (Inr ''@import b;''),
        LedgerDelete ''/src/a.scss'',
        Render ''/src/a.scss''
          \<lparr> data = ''@import b;'', importer = None, includePaths = [''/src''],
            imagePath = None, outputStyle = None \<rparr>,
        Done ''/src/a.scss''
          (Inl \<lparr> message = ''*/b{}'' @ [CHR 0x0A] @ ''/*'', line = ''12'', column = ''7'' \<rparr>),
        WriteHead 200 [(''Content-Type'', ''text/css''), (''Cache-Control'', ''max-age=0'')],
        End (''/*'' @ [CHR 0x0A] @ ''*/'' @ ''b{}'' @ [CHR 0x0A] @ ''/* in /src/a.scss:12:7''
             @ [CHR 0x0A] @ ''*/'' @ [CHR 0x0A]
             @ ''body:before { white-space: pre; font-family: monospace; content: ''
             @ [CHR 0x22] @ ''*/b{}'' @ [CHR 0x5C] @ ''A /* in /src/a.scss:12:7'' @ [CHR 0x22])]"
  by (simp add: ex_defs sass_defs model_defs)

subsection \<open>C8: when the Ledger has an entry\<close>

text \<open>
  C8, as amended. At every point of every run of the process, whatever requests arrive
  and in whatever order their callbacks run, the Ledger has an entry for a source \<open>S\<close>
  (any source path but \<^verbatim>\<open>__proto__\<close>) if and only if \<open>S\<close> has been compiled successfully
  and no compiler run for \<open>S\<close> has been started since the last such success; the entry is
  then the included-files list of that success. So an entry means at least one successful
  compile, but every later compile attempt that gets to the compiler removes the entry
  until a compile succeeds. What is on disk matters only through those compiler runs.
\<close>

theorem entry_iff_not_recompiled_since_success:
  assumes "S \<noteq> ''__proto__''"
  shows "entry (table (fst (execs es start))) S = since_success S None (snd (execs es start))
       \<and> (entry (table (fst (execs es start))) S \<noteq> None
            \<longrightarrow> list_ex (done_ok S) (snd (execs es start)))"
proof -
  have e: "entry (table (fst (execs es start))) S = since_success S None (snd (execs es start))"
    using execs_effect [OF assms, of es start]
    by (simp add: start_def empty_table_def entry_def)
  moreover have "since_success S None (snd (execs es start)) \<noteq> None
      \<Longrightarrow> list_ex (done_ok S) (snd (execs es start))"
    using since_success_found [of S None "snd (execs es start)"] by simp
  ultimately show ?thesis by simp
qed

text \<open>
  Two requests for the same source arrive before either has read it. Both start the
  compiler; the first run succeeds, then the second fails. The entry of the first is
  there at the end, although the last compiler run to finish failed.
\<close>

theorem entry_iff_not_recompiled_since_success_witness:
  "''/src/a.scss'' \<noteq> ''__proto__''
   \<and> entry (table (fst (execs
        [Arrives ex_opts ex_world ex_request, Arrives ex_opts ex_world ex_request,
         Returns 0 ex_world, Returns 1 ex_world, Returns 0 ex_world, Returns 1 ex_broken]
        start))) ''/src/a.scss'' = Some [''/src/_b.scss'']
   \<and> list_ex (done_ok ''/src/a.scss'') (snd (execs
        [Arrives ex_opts ex_world ex_request, Arrives ex_opts ex_world ex_request,
         Returns 0 ex_world, Returns 1 ex_world, Returns 0 ex_world, Returns 1 ex_broken]
        start))"
proof -
  have np: "''/src/a.scss'' \<noteq> ''__proto__''"
    by simp
  have e: "entry (table (fst (execs
        [Arrives ex_opts ex_world ex_request, Arrives ex_opts ex_world ex_request,
         Returns 0 ex_world, Returns 1 ex_world, Returns 0 ex_world, Returns 1 ex_broken]
        start))) ''/src/a.scss'' = Some [''/src/_b.scss'']"
    by (simp add: ex_defs sass_defs model_defs step_defs)
  note t = entry_iff_not_recompiled_since_success [OF np, where es =
        "[Arrives ex_opts ex_world ex_request, Arrives ex_opts ex_world ex_request,
         Returns 0 ex_world, Returns 1 ex_world, Returns 0 ex_world, Returns 1 ex_broken]"]
  have "list_ex (done_ok ''/src/a.scss'') (snd (execs
        [Arrives ex_opts ex_world ex_request, Arrives ex_opts ex_world ex_request,
         Returns 0 ex_world, Returns 1 ex_world, Returns 0 ex_world, Returns 1 ex_broken]
        start))"
    using t [THEN conjunct2] e by simp
  with np e show ?thesis
    by (intro conjI)
qed

text \<open>
  The claim as written fails: a first request compiles \<^verbatim>\<open>/src/a.scss\<close> successfully and
  all its callbacks run; the source is then edited into something the compiler rejects,
  and after the second request the source has been compiled successfully once and has no
  entry.
\<close>

theorem entry_lost_after_failed_compile:
  "list_ex (done_ok ''/src/a.scss'') (snd (execs
      [Arrives ex_opts ex_world ex_request,
       Returns 0 ex_world, Returns 0 ex_world, Returns 0 ex_world, Returns 0 ex_world,
       Arrives ex_opts ex_broken ex_request,
       Returns 0 ex_broken, Returns 0 ex_broken, Returns 0 ex_broken, Returns 0 ex_broken]
      start))
   \<and> entry (table (fst (execs
      [Arrives ex_opts ex_world ex_request,
       Returns 0 ex_world, Returns 0 ex_world, Returns 0 ex_world, Returns 0 ex_world,
       Arrives ex_opts ex_broken ex_request,
       Returns 0 ex_broken, Returns 0 ex_broken, Returns 0 ex_broken, Returns 0 ex_broken]
      start))) ''/src/a.scss'' = None
   \<and> waiters (fst (execs
      [Arrives ex_opts ex_world ex_request,
       Returns 0 ex_world, Returns 0 ex_world, Returns 0 ex_world, Returns 0 ex_world,
       Arrives ex_opts ex_broken ex_request,
       Returns 0 ex_broken, Returns 0 ex_broken, Returns 0 ex_broken, Returns 0 ex_broken]
      start)) = []"
  by (simp add: ex_defs sass_defs model_defs step_defs)

subsection \<open>C9: a failed write after the response\<close>

text \<open>
  C9 fails on the code. After a successful compile not in direct-response mode the
  response is sent from the compiled text in memory, but a failure of the directory
  creation or of the file write is not logged: lines 124 and 126 give it to the helper
  \<^verbatim>\<open>error\<close>, written to fall through to a 404 before anything is sent, which calls
  \<^verbatim>\<open>next\<close> for a request that has been answered. With \<^verbatim>\<open>debug\<close> on and the directory
  creation failing with EACCES, the lines logged are \<^verbatim>\<open>source\<close>, \<^verbatim>\<open>dest\<close>, \<^verbatim>\<open>read\<close> and
  \<^verbatim>\<open>render\<close>, and after the body comes \<^verbatim>\<open>next(err)\<close>.
\<close>

theorem persist_failure_not_logged:
  "snd (sass (ex_opts\<lparr>debug := True\<rparr>) ex_readonly ex_request empty_table)
     = [Log ''source'' ''/src/a.scss'', Log ''dest'' ''/dest/a.css'',
        Log ''read'' ''/dest/a.css'',
        ReadFile ''/src/a.scss'' (Inr ''@import b;''),
        LedgerDelete ''/src/a.scss'',
        Render ''/src/a.scss''
          \<lparr> data = ''@import b;'', importer = None, includePaths = [''/src''],
            imagePath = None, outputStyle = None \<rparr>,
        Done ''/src/a.scss'' (Inr \<lparr> css = ''b{}'', includedFiles = [''/src/_b.scss''] \<rparr>),
        Log ''render'' ''/src/a.scss'',
        LedgerSet ''/src/a.scss'' [''/src/_b.scss''],
        Mkdirp ''/dest'' 448,
        WriteHead 200 [(''Content-Type'', ''text/css''), (''Cache-Control'', ''max-age=0'')],
        End ''b{}'',
        Next (Some \<lparr> code = ''EACCES'' \<rparr>)]"
  by (simp add: ex_defs sass_defs model_defs)

subsection \<open>C10: status and headers\<close>

text \<open>
  C10. Every header block the middleware writes, on any request, has status 200 and
  exactly the headers \<^verbatim>\<open>Content-Type: text/css\<close> and \<^verbatim>\<open>Cache-Control: max-age=0\<close>; and
  every compile that gets to the compiler sends exactly one such block and one body,
  whether the compiler succeeded or failed, so the two cannot be told apart by status or
  headers.
\<close>

theorem every_response_is_200_css_uncached:
  "(\<forall>st hs. WriteHead st hs \<in> set (snd (sass opts w req im)) \<longrightarrow>
      st = 200 \<and> hs = [(''Content-Type'', ''text/css''), (''Cache-Control'', ''max-age=0'')])
   \<and> (\<forall>str. fs_readFile w sassPath = Inr str \<longrightarrow>
        (\<exists>body. filter sends (snd (compile opts w sassPath cssPath sassDir im))
           = [WriteHead 200 [(''Content-Type'', ''text/css''), (''Cache-Control'', ''max-age=0'')],
              End body]))"
proof (rule conjI)
  have all: "\<forall>a \<in> set (snd (sass opts w req im)). head_ok a"
    using sass_head_ok [of opts w req im] by (simp add: list_all_iff)
  show "\<forall>st hs. WriteHead st hs \<in> set (snd (sass opts w req im)) \<longrightarrow>
      st = 200 \<and> hs = [(''Content-Type'', ''text/css''), (''Cache-Control'', ''max-age=0'')]"
  proof (intro allI impI)
    fix st hs
    assume "WriteHead st hs \<in> set (snd (sass opts w req im))"
    with all have "head_ok (WriteHead st hs)"
      by (rule bspec)
    then show "st = 200 \<and> hs = [(''Content-Type'', ''text/css''), (''Cache-Control'', ''max-age=0'')]"
      by simp
  qed
next
  show "\<forall>str. fs_readFile w sassPath = Inr str \<longrightarrow>
        (\<exists>body. filter sends (snd (compile opts w sassPath cssPath sassDir im))
           = [WriteHead 200 [(''Content-Type'', ''text/css''), (''Cache-Control'', ''max-age=0'')],
              End body])"
  proof (intro allI impI)
    fix str
    assume r: "fs_readFile w sassPath = Inr str"
    show "\<exists>body. filter sends (snd (compile opts w sassPath cssPath sassDir im))
           = [WriteHead 200 [(''Content-Type'', ''text/css''), (''Cache-Control'', ''max-age=0'')],
              End body]"
      using done_cb_sends [of opts w sassPath cssPath
          "render w (render_options opts sassDir str)" "table_delete im sassPath"]
      by (simp add: compile_trace_read_ok [OF r])
  qed
qed

text \<open>The diagnostic of a failed compile goes out under the same status and headers.\<close>

theorem every_response_is_200_css_uncached_witness:
  "WriteHead 200 [(''Content-Type'', ''text/css''), (''Cache-Control'', ''max-age=0'')]
     \<in> set (snd (sass ex_opts ex_broken ex_request empty_table))
   \<and> fs_readFile ex_broken ''/src/a.scss'' = Inr ''@import b;''
   \<and> (\<exists>body. filter sends (snd (compile ex_opts ex_broken ''/src/a.scss'' ''/dest/a.css'' ''/src'' empty_table))
         = [WriteHead 200 [(''Content-Type'', ''text/css''), (''Cache-Control'', ''max-age=0'')],
            End body])"
proof -
  have a: "WriteHead 200 [(''Content-Type'', ''text/css''), (''Cache-Control'', ''max-age=0'')]
     \<in> set (snd (sass ex_opts ex_broken ex_request empty_table))"
    by (simp add: ex_defs sass_defs model_defs)
  have b: "fs_readFile ex_broken ''/src/a.scss'' = Inr ''@import b;''"
    by (simp add: ex_defs)
  note c = every_response_is_200_css_uncached [of ex_opts ex_broken ex_request empty_table
      "''/src/a.scss''" "''/dest/a.css''" "''/src''", THEN conjunct2, THEN spec, THEN mp, OF b]
  from a b c show ?thesis
    by (intro conjI)
qed

end
